theory Spec2Isabelle
  imports Main "HOL-Library.Word"
begin

section \<open>The timer reactor of \<^verbatim>\<open>src/asm/timerobjectreactor.hpp\<close>\<close>

text \<open>
  The class \<^verbatim>\<open>Asm::TimerObjectReactor\<close> owns an epoll instance, an eventfd used as
  stop signal, one service thread and a map from timer descriptors to the data objects
  that hold them. The model passes the object explicitly as a record. Everything the
  code does besides changing its members is appended to a list of effects, in program
  order: log lines, mutex operations, map operations, system calls, thread operations
  and the calls into the data object reactor. Results of system calls that depend on
  the rest of the machine are arguments of the model.
\<close>

subsection \<open>Data objects\<close>

text \<open>\<^verbatim>\<open>TimerObject\<close>: only the member \<^verbatim>\<open>_fd\<close> is read by the reactor.\<close>

record TimerObject =
  t_fd :: int

text \<open>
  Modelled from the spec: \<^verbatim>\<open>DataObject<T>\<close> is declared in a header that is not part of
  the sources at hand. It is a value behind a lock; \<^verbatim>\<open>get(transform)\<close> acquires the
  lock, applies the transform to the value, releases the lock and returns the result.
  The reactor stores references to data objects, so each one has an identity.
\<close>

record 'a DataObject =
  ident :: nat
  content :: 'a

definition get :: "'a DataObject \<Rightarrow> ('a \<Rightarrow> 'b) \<Rightarrow> 'b" where
  "get dot f = f (content dot)"

subsection \<open>Effects\<close>

datatype level = LTrace | LInfo | LWarn | LError

datatype syscall =
    Eventfd
  | EpollCreate1
  | EpollCtlAdd int int
  | EpollCtlDel int int
  | EpollWait int nat
  | Read int
  | Write int
  | Close int

datatype effect =
    Log level string
  | Lock
  | Unlock
  | MapInsert int
  | MapErase int
  | MapFind int
  | Sys syscall
  | ThreadSpawn
  | SetName string
  | SetSchedFifo int
  | ThreadJoin
  | Trigger "TimerObject DataObject"

subsection \<open>The kernel objects the reactor uses\<close>

text \<open>
  \<open>epolls\<close> maps each open epoll descriptor to its interest list, \<open>eventfds\<close> is the
  set of open eventfd descriptors. Timer descriptors are created elsewhere and are not
  tracked.
\<close>

record kernel =
  epolls :: "int \<rightharpoonup> int set"
  eventfds :: "int set"

text \<open>\<^verbatim>\<open>eventfd(0, EFD_CLOEXEC)\<close>: \<open>r\<close> is the descriptor the kernel hands out, negative
  when it has none.\<close>

definition sys_eventfd :: "int \<Rightarrow> kernel \<Rightarrow> kernel \<times> int" where
  "sys_eventfd r k =
     (if r < 0 then (k, - 1) else (k\<lparr>eventfds := insert r (eventfds k)\<rparr>, r))"

text \<open>\<^verbatim>\<open>epoll_create1(EPOLL_CLOEXEC)\<close>: a new instance with an empty interest list.\<close>

definition sys_epoll_create1 :: "int \<Rightarrow> kernel \<Rightarrow> kernel \<times> int" where
  "sys_epoll_create1 r k =
     (if r < 0 then (k, - 1) else (k\<lparr>epolls := (epolls k)(r \<mapsto> {})\<rparr>, r))"

text \<open>\<^verbatim>\<open>close(h)\<close>: the descriptor goes away, and with it its entry in every
  interest list.\<close>

definition sys_close :: "int \<Rightarrow> kernel \<Rightarrow> kernel" where
  "sys_close h k =
     k\<lparr>epolls := (\<lambda>e. if e = h then None else map_option (\<lambda>I. I - {h}) (epolls k e)),
       eventfds := eventfds k - {h}\<rparr>"

text \<open>
  \<^verbatim>\<open>epoll_ctl(ep, EPOLL_CTL_ADD, h, &evt)\<close>. It fails with EBADF on a descriptor that
  is not open, with EINVAL when \<open>h\<close> is the epoll descriptor itself, with EEXIST when
  \<open>h\<close> is already in the interest list, and otherwise when the kernel does not grant
  the request (ENOMEM, ENOSPC, EPERM, or \<open>h\<close> not open): \<open>grant\<close> is that decision.
\<close>

definition epoll_ctl_add :: "bool \<Rightarrow> int \<Rightarrow> int \<Rightarrow> kernel \<Rightarrow> kernel \<times> int" where
  "epoll_ctl_add grant ep h k =
     (if ep < 0 \<or> h < 0 then (k, - 1)
      else case epolls k ep of
        None \<Rightarrow> (k, - 1)
      | Some I \<Rightarrow>
          if h = ep then (k, - 1)
          else if h \<in> I then (k, - 1)
          else if \<not> grant then (k, - 1)
          else (k\<lparr>epolls := (epolls k)(ep \<mapsto> insert h I)\<rparr>, 0))"

text \<open>
  \<^verbatim>\<open>epoll_ctl(ep, EPOLL_CTL_DEL, h, 0)\<close>. It fails with EBADF or EINVAL as above,
  with ENOENT when \<open>h\<close> is not in the interest list, and otherwise when the kernel
  does not grant the request.
\<close>

definition epoll_ctl_del :: "bool \<Rightarrow> int \<Rightarrow> int \<Rightarrow> kernel \<Rightarrow> kernel \<times> int" where
  "epoll_ctl_del grant ep h k =
     (if ep < 0 \<or> h < 0 then (k, - 1)
      else case epolls k ep of
        None \<Rightarrow> (k, - 1)
      | Some I \<Rightarrow>
          if h = ep then (k, - 1)
          else if h \<notin> I then (k, - 1)
          else if \<not> grant then (k, - 1)
          else (k\<lparr>epolls := (epolls k)(ep \<mapsto> I - {h})\<rparr>, 0))"

text \<open>\<^verbatim>\<open>write(h, &stop, 8)\<close> on an eventfd: 8 bytes are written when \<open>h\<close> is an open
  eventfd, and the call fails otherwise.\<close>

definition sys_write :: "int \<Rightarrow> kernel \<Rightarrow> int" where
  "sys_write h k = (if 0 \<le> h \<and> h \<in> eventfds k then 8 else - 1)"

subsection \<open>The reactor\<close>

text \<open>
  The members \<^verbatim>\<open>_epfd\<close>, \<^verbatim>\<open>_evtfd\<close>, \<^verbatim>\<open>_thrd\<close> (whether the thread object is joinable)
  and \<^verbatim>\<open>_notify\<close>, together with the kernel state and the effects so far. The calls
  into \<^verbatim>\<open>_dor\<close> are \<open>Trigger\<close> effects.
\<close>

record TimerObjectReactor =
  epfd :: int
  evtfd :: int
  thrd :: bool
  notify :: "int \<rightharpoonup> TimerObject DataObject"
  kern :: kernel
  effects :: "effect list"

text \<open>The two builds the preprocessor selects between with \<^verbatim>\<open>#ifdef __linux__\<close>.\<close>

datatype platform = Linux | Other

definition RT_PRIO :: int where
  "RT_PRIO = 31"

definition MAX_CAPACITY :: nat where
  "MAX_CAPACITY = 256"

definition emit :: "effect list \<Rightarrow> TimerObjectReactor \<Rightarrow> TimerObjectReactor" where
  "emit es s = s\<lparr>effects := effects s @ es\<rparr>"

text \<open>\<^verbatim>\<open>std::unordered_map::insert\<close> keeps an entry that is already there.\<close>

definition map_insert :: "int \<Rightarrow> 'v \<Rightarrow> (int \<rightharpoonup> 'v) \<Rightarrow> (int \<rightharpoonup> 'v)" where
  "map_insert h v m = (case m h of None \<Rightarrow> m(h \<mapsto> v) | Some _ \<Rightarrow> m)"

definition map_erase :: "int \<Rightarrow> (int \<rightharpoonup> 'v) \<Rightarrow> (int \<rightharpoonup> 'v)" where
  "map_erase h m = m(h := None)"

definition registerTimer ::
  "platform \<Rightarrow> bool \<Rightarrow> TimerObjectReactor \<Rightarrow> TimerObject DataObject \<Rightarrow> TimerObjectReactor \<times> bool"
where
  "registerTimer p grant s dot =
     (let h = get dot t_fd in
      case p of
        Other \<Rightarrow> (s, True)
      | Linux \<Rightarrow>
          let s1 = emit [Lock, MapInsert h, Unlock] (s\<lparr>notify := map_insert h dot (notify s)\<rparr>);
              (k, r) = epoll_ctl_add grant (epfd s1) h (kern s1);
              s2 = emit [Sys (EpollCtlAdd (epfd s1) h)] (s1\<lparr>kern := k\<rparr>)
          in if r < 0 then
               (emit [Lock, MapErase h, Unlock,
                      Log LError ''Epoll control error at TimerObjectReactor.registerTimer: {}'']
                  (s2\<lparr>notify := map_erase h (notify s2)\<rparr>), False)
             else (s2, True))"

definition unregisterTimer ::
  "platform \<Rightarrow> bool \<Rightarrow> TimerObjectReactor \<Rightarrow> TimerObject DataObject \<Rightarrow> TimerObjectReactor \<times> bool"
where
  "unregisterTimer p grant s dot =
     (let ret = True;
          h = get dot t_fd in
      case p of
        Other \<Rightarrow> (s, ret)
      | Linux \<Rightarrow>
          let (k, r) = epoll_ctl_del grant (epfd s) h (kern s);
              s1 = emit [Sys (EpollCtlDel (epfd s) h)] (s\<lparr>kern := k\<rparr>);
              (s2, ret) =
                (if r < 0 then
                   (emit [Log LError ''Epoll control error at TimerObjectReactor.unregisterTimer: {}''] s1,
                    False)
                 else (s1, ret))
          in (emit [Lock, MapErase h, Unlock] (s2\<lparr>notify := map_erase h (notify s2)\<rparr>), ret))"

subsection \<open>Construction and destruction\<close>

text \<open>What the machine answers during construction: the descriptors handed out by
  \<^verbatim>\<open>eventfd\<close> and \<^verbatim>\<open>epoll_create1\<close>, whether the kernel grants adding the stop
  descriptor, and the return codes of the two calls on the thread.\<close>

record ctor_env =
  r_eventfd :: int
  r_epoll_create1 :: int
  grant_stop :: bool
  r_setname :: int
  r_setschedparam :: int

text \<open>The member initialisers \<^verbatim>\<open>_epfd(-1), _evtfd(-1)\<close>; \<^verbatim>\<open>_thrd\<close> and \<^verbatim>\<open>_notify\<close> are
  default-constructed.\<close>

definition init :: "kernel \<Rightarrow> TimerObjectReactor" where
  "init k = \<lparr>epfd = - 1, evtfd = - 1, thrd = False, notify = Map.empty, kern = k, effects = []\<rparr>"

definition constructor :: "platform \<Rightarrow> ctor_env \<Rightarrow> kernel \<Rightarrow> TimerObjectReactor" where
  "constructor p env k0 =
     (let s = init k0 in
      case p of
        Other \<Rightarrow> s
      | Linux \<Rightarrow>
          let (k1, r1) = sys_eventfd (r_eventfd env) (kern s);
              s1 = emit [Sys Eventfd] (s\<lparr>evtfd := r1, kern := k1\<rparr>)
          in if evtfd s1 < 0 then
               emit [Log LError ''Eventfd file handle could not be created in TOR: {}''] s1
             else
               let (k2, r2) = sys_epoll_create1 (r_epoll_create1 env) (kern s1);
                   s2 = emit [Sys EpollCreate1] (s1\<lparr>epfd := r2, kern := k2\<rparr>)
               in if epfd s2 < 0 then
                    emit [Log LError ''Epoll file handle could not be created in TOR: {}'',
                          Sys (Close (evtfd s2))]
                      (s2\<lparr>kern := sys_close (evtfd s2) (kern s2)\<rparr>)
                  else
                    let (k3, r3) = epoll_ctl_add (grant_stop env) (epfd s2) (evtfd s2) (kern s2);
                        s3 = emit [Sys (EpollCtlAdd (epfd s2) (evtfd s2))] (s2\<lparr>kern := k3\<rparr>)
                    in if r3 < 0 then
                         emit [Log LError ''Epoll control error at ADD stop event in TOR: {}'',
                               Sys (Close (epfd s3)), Sys (Close (evtfd s3))]
                           (s3\<lparr>kern := sys_close (evtfd s3) (sys_close (epfd s3) (kern s3))\<rparr>)
                       else
                         let s4 = emit [ThreadSpawn, Log LInfo ''Created {}'', SetName ''TOR-THRD-0'']
                                    (s3\<lparr>thrd := True\<rparr>);
                             s5 = (if r_setname env \<noteq> 0
                                   then emit [Log LWarn ''Could not set name for {}''] s4 else s4);
                             s6 = emit [SetSchedFifo RT_PRIO] s5
                         in if r_setschedparam env \<noteq> 0
                            then emit [Log LWarn ''Could not set realtime parameter for {}''] s6
                            else s6)"

text \<open>
  The destructor does not return in two cases. \<^verbatim>\<open>std::thread::join\<close> on a thread
  object that is not joinable throws \<^verbatim>\<open>std::system_error\<close>; a destructor is
  \<^verbatim>\<open>noexcept\<close>, so the exception ends the program in \<^verbatim>\<open>std::terminate\<close>. And
  \<^verbatim>\<open>join\<close> on a running service thread returns only once that thread has read the stop
  value, which it never does when the write failed.
\<close>

datatype failure = Terminate | Hang

definition destructor :: "platform \<Rightarrow> TimerObjectReactor \<Rightarrow> failure + TimerObjectReactor" where
  "destructor p s =
     (let s0 = emit [Log LInfo ''Delete TOR''] s in
      case p of
        Other \<Rightarrow> Inr s0
      | Linux \<Rightarrow>
          let n = sys_write (evtfd s0) (kern s0);
              s1 = emit [Sys (Write (evtfd s0))] s0;
              s2 = (if n \<noteq> 8 then emit [Log LError ''Timer stop failed: {}''] s1 else s1)
          in if \<not> thrd s2 then Inl Terminate
             else if n \<noteq> 8 then Inl Hang
             else
               let s3 = emit [ThreadJoin] (s2\<lparr>thrd := False\<rparr>);
                   s4 = (if 0 \<le> evtfd s3
                         then emit [Sys (Close (evtfd s3))] (s3\<lparr>kern := sys_close (evtfd s3) (kern s3)\<rparr>)
                         else s3);
                   s5 = (if 0 \<le> epfd s4
                         then emit [Sys (Close (epfd s4))] (s4\<lparr>kern := sys_close (epfd s4) (kern s4)\<rparr>)
                         else s4)
               in Inr s5)"

subsection \<open>The service loop\<close>

text \<open>
  One entry of the array filled by \<^verbatim>\<open>epoll_wait\<close>: whether \<^verbatim>\<open>events\<close> has
  \<^verbatim>\<open>EPOLLIN\<close> set, and \<^verbatim>\<open>data.fd\<close>. With it comes what \<^verbatim>\<open>read\<close> on that descriptor
  answers: the byte count returned and the 64-bit value stored in \<^verbatim>\<open>elapsed\<close>.
\<close>

record epoll_event =
  events_EPOLLIN :: bool
  data_fd :: int

record read_result =
  rd_ret :: int
  elapsed :: "64 word"

type_synonym ready = "epoll_event \<times> read_result"

text \<open>The body of the inner \<^verbatim>\<open>for\<close> loop; the flag says that \<^verbatim>\<open>run\<close> returns.\<close>

definition handle_event :: "TimerObjectReactor \<Rightarrow> ready \<Rightarrow> bool \<times> TimerObjectReactor" where
  "handle_event s e =
     (let (evt, rd) = e in
      if events_EPOLLIN evt then
        let s1 = emit [Sys (Read (data_fd evt))] s in
        if rd_ret rd \<noteq> 8 then
          (False, emit [Log LError ''Read TOR event returns wrong size: {}''] s1)
        else if data_fd evt = evtfd s1 \<and> elapsed rd > 0 then
          (True, emit [Log LInfo ''Read TOR event returns stop command''] s1)
        else
          let s2 = emit [Log LTrace ''TOR with TID {} has fired'', Lock, MapFind (data_fd evt)] s1 in
          case notify s2 (data_fd evt) of
            Some dot \<Rightarrow> (False, emit [Unlock, Trigger dot] s2)
          | None \<Rightarrow> (False, emit [Unlock] s2)
      else (False, s))"

fun for_events :: "TimerObjectReactor \<Rightarrow> ready list \<Rightarrow> bool \<times> TimerObjectReactor" where
  "for_events s [] = (False, s)"
| "for_events s (e # es) =
     (case handle_event s e of
        (True, s') \<Rightarrow> (True, s')
      | (False, s') \<Rightarrow> for_events s' es)"

text \<open>
  One return of \<^verbatim>\<open>epoll_wait\<close>: the count and the array. The array has
  \<open>MAX_CAPACITY\<close> zeroed entries, so entries beyond the list are events without
  \<^verbatim>\<open>EPOLLIN\<close>, which the loop body passes over.
\<close>

record wake =
  evt_cnt :: int
  evt :: "ready list"

datatype outcome = Returned | Waiting

text \<open>
  The outer \<^verbatim>\<open>for (;;)\<close>, driven by the returns of \<^verbatim>\<open>epoll_wait\<close> that the kernel
  delivers. When there are no more, the thread stays blocked in \<^verbatim>\<open>epoll_wait\<close>.
\<close>

fun service_loop :: "TimerObjectReactor \<Rightarrow> wake list \<Rightarrow> outcome \<times> TimerObjectReactor" where
  "service_loop s [] = (Waiting, emit [Sys (EpollWait (epfd s) MAX_CAPACITY)] s)"
| "service_loop s (w # ws) =
     (let s1 = emit [Sys (EpollWait (epfd s) MAX_CAPACITY)] s in
      if evt_cnt w \<le> 0 then
        service_loop (emit [Log LError ''Epoll wait error: {}''] s1) ws
      else
        case for_events s1 (take (nat (evt_cnt w)) (evt w)) of
          (True, s') \<Rightarrow> (Returned, s')
        | (False, s') \<Rightarrow> service_loop s' ws)"

definition run :: "platform \<Rightarrow> TimerObjectReactor \<Rightarrow> wake list \<Rightarrow> outcome \<times> TimerObjectReactor" where
  "run p s ws =
     (case p of
        Other \<Rightarrow> (Returned, s)
      | Linux \<Rightarrow> service_loop (emit [Log LInfo ''TOR-THRD-0 has TID-{}''] s) ws)"

subsection \<open>Sequences of calls\<close>

datatype call =
    Register "TimerObject DataObject" bool
  | Unregister "TimerObject DataObject" bool

fun do_call :: "platform \<Rightarrow> TimerObjectReactor \<Rightarrow> call \<Rightarrow> TimerObjectReactor" where
  "do_call p s (Register dot grant) = fst (registerTimer p grant s dot)"
| "do_call p s (Unregister dot grant) = fst (unregisterTimer p grant s dot)"

fun do_calls :: "platform \<Rightarrow> TimerObjectReactor \<Rightarrow> call list \<Rightarrow> TimerObjectReactor" where
  "do_calls p s [] = s"
| "do_calls p s (c # cs) = do_calls p (do_call p s c) cs"

text \<open>The handles armed at the reactor's epoll instance.\<close>

definition armed :: "TimerObjectReactor \<Rightarrow> int set" where
  "armed s =
     (if epfd s < 0 then {}
      else case epolls (kern s) (epfd s) of None \<Rightarrow> {} | Some I \<Rightarrow> I)"

text \<open>The reactor has an open epoll instance.\<close>

definition live :: "TimerObjectReactor \<Rightarrow> bool" where
  "live s = (0 \<le> epfd s \<and> epolls (kern s) (epfd s) \<noteq> None)"

text \<open>Only valid descriptors other than the epoll descriptor are armed.\<close>

definition sane :: "TimerObjectReactor \<Rightarrow> bool" where
  "sane s = (\<forall>h \<in> armed s. 0 \<le> h \<and> h \<noteq> epfd s)"

text \<open>
  A call keeps the map and the interest list in step when it names a timer handle, not
  the stop handle, when it does not register a handle that is armed already, and when
  the kernel does not refuse to disarm an armed handle.
\<close>

fun ok_call :: "TimerObjectReactor \<Rightarrow> call \<Rightarrow> bool" where
  "ok_call s (Register dot grant) =
     (get dot t_fd \<noteq> evtfd s \<and> get dot t_fd \<notin> armed s)"
| "ok_call s (Unregister dot grant) =
     (get dot t_fd \<noteq> evtfd s \<and> (get dot t_fd \<in> armed s \<longrightarrow> grant))"

fun disciplined :: "platform \<Rightarrow> TimerObjectReactor \<Rightarrow> call list \<Rightarrow> bool" where
  "disciplined p s [] = True"
| "disciplined p s (c # cs) = (ok_call s c \<and> disciplined p (do_call p s c) cs)"

subsection \<open>Reading the effects\<close>

definition new_effects :: "TimerObjectReactor \<Rightarrow> TimerObjectReactor \<Rightarrow> effect list" where
  "new_effects s s' = drop (length (effects s)) (effects s')"

fun hub_calls :: "effect list \<Rightarrow> TimerObject DataObject list" where
  "hub_calls [] = []"
| "hub_calls (Trigger dot # es) = dot # hub_calls es"
| "hub_calls (_ # es) = hub_calls es"


fun reads :: "effect list \<Rightarrow> int list" where
  "reads [] = []"
| "reads (Sys (Read h) # es) = h # reads es"
| "reads (_ # es) = reads es"

subsection \<open>Thread priorities\<close>

text \<open>
  \<^verbatim>\<open>Observer::RT_PRIO\<close> of \<^verbatim>\<open>src/main.cpp\<close>: the priority every worker thread of the
  task scheduler, on which the data object reactor dispatches, gives itself on entry.
\<close>

definition Observer_RT_PRIO :: int where
  "Observer_RT_PRIO = 30"

text \<open>The static priority of a thread under the default policy \<^verbatim>\<open>SCHED_OTHER\<close>, which
  the scheduling interface of Linux fixes at 0.\<close>

definition DEFAULT_PRIO :: int where
  "DEFAULT_PRIO = 0"

subsection \<open>A concrete machine\<close>

definition kernel0 :: kernel where
  "kernel0 = \<lparr>epolls = Map.empty, eventfds = {}\<rparr>"

definition env_ok :: ctor_env where
  "env_ok = \<lparr>r_eventfd = 3, r_epoll_create1 = 4, grant_stop = True,
             r_setname = 0, r_setschedparam = 0\<rparr>"

definition timer7 :: "TimerObject DataObject" where
  "timer7 = \<lparr>ident = 1, content = \<lparr>t_fd = 7\<rparr>\<rparr>"

definition timer9 :: "TimerObject DataObject" where
  "timer9 = \<lparr>ident = 2, content = \<lparr>t_fd = 9\<rparr>\<rparr>"

definition reactor0 :: TimerObjectReactor where
  "reactor0 = constructor Linux env_ok kernel0"

text \<open>The reactor after timer 7 has been registered.\<close>

definition reactor1 :: TimerObjectReactor where
  "reactor1 = do_calls Linux reactor0 [Register timer7 True]"

text \<open>Three entries of a wake-up: the stop descriptor with the value the destructor
  wrote, timer 7 with one expiration, and timer 7 with a failed read.\<close>

definition stop_event :: ready where
  "stop_event = (\<lparr>events_EPOLLIN = True, data_fd = 3\<rparr>, \<lparr>rd_ret = 8, elapsed = 1\<rparr>)"

definition fire7 :: ready where
  "fire7 = (\<lparr>events_EPOLLIN = True, data_fd = 7\<rparr>, \<lparr>rd_ret = 8, elapsed = 1\<rparr>)"

definition short7 :: ready where
  "short7 = (\<lparr>events_EPOLLIN = True, data_fd = 7\<rparr>, \<lparr>rd_ret = - 1, elapsed = 0\<rparr>)"

section \<open>Basic facts\<close>

lemma emit_simps [simp]:
  "epfd (emit es s) = epfd s" "evtfd (emit es s) = evtfd s" "thrd (emit es s) = thrd s"
  "notify (emit es s) = notify s" "kern (emit es s) = kern s"
  "effects (emit es s) = effects s @ es"
  by (simp_all add: emit_def)

lemma emit_emit [simp]: "emit es (emit fs s) = emit (fs @ es) s"
  by (simp add: emit_def)

lemma new_effects_emit [simp]: "new_effects s (emit es s) = es"
  by (simp add: new_effects_def emit_def)

lemma dom_map_insert [simp]: "dom (map_insert h v m) = insert h (dom m)"
  by (auto simp: map_insert_def split: option.splits)

lemma dom_map_erase [simp]: "dom (map_erase h m) = dom m - {h}"
  by (simp add: map_erase_def)

lemma map_erase_insert [simp]: "map_erase h (map_insert h v m) = map_erase h m"
  by (auto simp: map_erase_def map_insert_def split: option.splits)

lemma map_insert_present: "h \<in> dom m \<Longrightarrow> map_insert h v m = m"
  by (auto simp: map_insert_def split: option.splits)

subsection \<open>The two calls of \<^verbatim>\<open>epoll_ctl\<close>\<close>

lemma add_result:
  "epoll_ctl_add g ep h k =
     (if 0 \<le> ep \<and> 0 \<le> h \<and> h \<noteq> ep \<and> g \<and> (\<exists>I. epolls k ep = Some I \<and> h \<notin> I)
      then (k\<lparr>epolls := (epolls k)(ep \<mapsto> insert h (the (epolls k ep)))\<rparr>, 0)
      else (k, - 1))"
  by (auto simp: epoll_ctl_add_def split: option.splits)

lemma del_result:
  "epoll_ctl_del g ep h k =
     (if 0 \<le> ep \<and> 0 \<le> h \<and> h \<noteq> ep \<and> g \<and> (\<exists>I. epolls k ep = Some I \<and> h \<in> I)
      then (k\<lparr>epolls := (epolls k)(ep \<mapsto> the (epolls k ep) - {h})\<rparr>, 0)
      else (k, - 1))"
  by (auto simp: epoll_ctl_del_def split: option.splits)

subsection \<open>Registration on Linux, step by step\<close>

lemma registerTimer_Linux:
  "registerTimer Linux grant s dot =
     (let h = t_fd (content dot);
          m = map_insert h dot (notify s);
          kr = epoll_ctl_add grant (epfd s) h (kern s)
      in if snd kr < 0 then
           (s\<lparr>notify := map_erase h m, kern := fst kr,
              effects := effects s @ [Lock, MapInsert h, Unlock, Sys (EpollCtlAdd (epfd s) h),
                Lock, MapErase h, Unlock,
                Log LError ''Epoll control error at TimerObjectReactor.registerTimer: {}'']\<rparr>, False)
         else
           (s\<lparr>notify := m, kern := fst kr,
              effects := effects s @ [Lock, MapInsert h, Unlock, Sys (EpollCtlAdd (epfd s) h)]\<rparr>, True))"
  by (simp add: registerTimer_def get_def emit_def Let_def split: prod.splits)

lemma unregisterTimer_Linux:
  "unregisterTimer Linux grant s dot =
     (let h = t_fd (content dot);
          kr = epoll_ctl_del grant (epfd s) h (kern s)
      in (s\<lparr>notify := map_erase h (notify s), kern := fst kr,
            effects := effects s @ Sys (EpollCtlDel (epfd s) h) #
              (if snd kr < 0
               then [Log LError ''Epoll control error at TimerObjectReactor.unregisterTimer: {}'']
               else []) @ [Lock, MapErase h, Unlock]\<rparr>, 0 \<le> snd kr))"
  by (simp add: unregisterTimer_def get_def emit_def Let_def split: prod.splits)

lemma register_ok_iff:
  "snd (registerTimer Linux g s d) \<longleftrightarrow>
     live s \<and> 0 \<le> t_fd (content d) \<and> t_fd (content d) \<noteq> epfd s \<and> g
     \<and> t_fd (content d) \<notin> armed s"
  by (auto simp: registerTimer_Linux Let_def add_result live_def armed_def)

lemma unregister_ok_iff:
  "snd (unregisterTimer Linux g s d) \<longleftrightarrow>
     live s \<and> 0 \<le> t_fd (content d) \<and> t_fd (content d) \<noteq> epfd s \<and> g
     \<and> t_fd (content d) \<in> armed s"
  by (auto simp: unregisterTimer_Linux Let_def del_result live_def armed_def)

lemma register_fields [simp]:
  "epfd (fst (registerTimer p g s d)) = epfd s"
  "evtfd (fst (registerTimer p g s d)) = evtfd s"
  "thrd (fst (registerTimer p g s d)) = thrd s"
  by (cases p, simp add: registerTimer_Linux Let_def, simp add: registerTimer_def)+

lemma unregister_fields [simp]:
  "epfd (fst (unregisterTimer p g s d)) = epfd s"
  "evtfd (fst (unregisterTimer p g s d)) = evtfd s"
  "thrd (fst (unregisterTimer p g s d)) = thrd s"
  by (cases p, simp add: unregisterTimer_Linux Let_def, simp add: unregisterTimer_def)+

lemma register_notify:
  "notify (fst (registerTimer Linux g s d)) =
     (if snd (registerTimer Linux g s d) then map_insert (t_fd (content d)) d (notify s)
      else map_erase (t_fd (content d)) (notify s))"
  by (simp add: registerTimer_Linux Let_def)

lemma unregister_notify:
  "notify (fst (unregisterTimer Linux g s d)) = map_erase (t_fd (content d)) (notify s)"
  by (simp add: unregisterTimer_Linux Let_def)

lemma register_armed:
  "armed (fst (registerTimer Linux g s d)) =
     (if snd (registerTimer Linux g s d) then insert (t_fd (content d)) (armed s) else armed s)"
  by (auto simp: registerTimer_Linux Let_def add_result armed_def)

lemma unregister_armed:
  "armed (fst (unregisterTimer Linux g s d)) =
     (if snd (unregisterTimer Linux g s d) then armed s - {t_fd (content d)} else armed s)"
  by (auto simp: unregisterTimer_Linux Let_def del_result armed_def)

lemma other_calls [simp]: "do_call Other s c = s"
  by (cases c) (simp_all add: registerTimer_def unregisterTimer_def)

lemma do_call_fields [simp]:
  "epfd (do_call p s c) = epfd s" "evtfd (do_call p s c) = evtfd s"
  by (cases c; simp)+

lemma thrd_calls [simp]: "thrd (do_calls p s cs) = thrd s"
proof (induction cs arbitrary: s)
  case Nil
  show ?case by simp
next
  case (Cons c cs)
  then show ?case by (cases c) simp_all
qed

subsection \<open>Invariants of call sequences\<close>

text \<open>Every key of the map is armed.\<close>

lemma keys_armed_step:
  "dom (notify s) \<subseteq> armed s \<Longrightarrow> dom (notify (do_call p s c)) \<subseteq> armed (do_call p s c)"
proof (cases p)
  case Other
  then show "dom (notify s) \<subseteq> armed s \<Longrightarrow> ?thesis" by simp
next
  case Linux
  assume inv: "dom (notify s) \<subseteq> armed s"
  show ?thesis
  proof (cases c)
    case (Register d g)
    with Linux inv show ?thesis
      by (auto simp: register_notify register_armed)
  next
    case (Unregister d g)
    with Linux inv show ?thesis
      by (auto simp: unregister_notify unregister_armed)
  qed
qed

lemma keys_armed_calls:
  "dom (notify s) \<subseteq> armed s \<Longrightarrow> dom (notify (do_calls p s cs)) \<subseteq> armed (do_calls p s cs)"
  by (induction cs arbitrary: s) (simp_all add: keys_armed_step)

lemma constructor_notify [simp]: "notify (constructor p env k) = Map.empty"
  by (cases p) (simp_all add: constructor_def init_def Let_def split: prod.splits)

lemma armed_live: "h \<in> armed s \<Longrightarrow> live s"
  by (auto simp: armed_def live_def split: if_splits option.splits)

lemma sane_step: "sane s \<Longrightarrow> sane (do_call p s c)"
proof (cases p)
  case Other
  then show "sane s \<Longrightarrow> ?thesis" by simp
next
  case Linux
  assume "sane s"
  with Linux show ?thesis
    by (cases c) (auto simp: sane_def register_armed register_ok_iff unregister_armed
        split: if_splits)
qed

text \<open>Under the discipline the keys are exactly the armed timer handles.\<close>

lemma keys_exact_step:
  assumes "dom (notify s) = armed s - {evtfd s}" and "sane s" and "ok_call s c"
  shows "dom (notify (do_call p s c)) = armed (do_call p s c) - {evtfd (do_call p s c)}"
proof (cases p)
  case Other
  with assms show ?thesis by simp
next
  case Linux
  show ?thesis
  proof (cases c)
    case (Register d g)
    with Linux assms show ?thesis
      by (auto simp: register_notify register_armed get_def)
  next
    case (Unregister d g)
    with Linux assms show ?thesis
      by (auto simp: unregister_notify unregister_armed unregister_ok_iff get_def sane_def
          dest: armed_live)
  qed
qed

lemma keys_exact_calls:
  "dom (notify s) = armed s - {evtfd s} \<Longrightarrow> sane s \<Longrightarrow> disciplined p s cs \<Longrightarrow>
   dom (notify (do_calls p s cs)) = armed (do_calls p s cs) - {evtfd (do_calls p s cs)}"
proof (induction cs arbitrary: s)
  case Nil
  then show ?case by simp
next
  case (Cons c cs)
  from Cons.prems
  have "dom (notify (do_call p s c)) = armed (do_call p s c) - {evtfd (do_call p s c)}"
    by (simp add: keys_exact_step)
  moreover from Cons.prems have "sane (do_call p s c)"
    by (simp add: sane_step)
  moreover from Cons.prems have "disciplined p (do_call p s c) cs"
    by simp
  ultimately show ?case
    using Cons.IH by simp
qed

lemma disciplined_take: "disciplined p s cs \<Longrightarrow> disciplined p s (take n cs)"
proof (induction cs arbitrary: s n)
  case Nil
  then show ?case by simp
next
  case (Cons c cs)
  then show ?case by (cases n) simp_all
qed

lemma constructor_armed: "armed (constructor p env k) \<subseteq> {evtfd (constructor p env k)}"
  by (cases p)
    (auto simp: constructor_def init_def Let_def armed_def sys_eventfd_def sys_epoll_create1_def
      sys_close_def add_result split: if_splits option.splits)

lemma constructor_sane: "sane (constructor p env k)"
  by (cases p)
    (auto simp: sane_def constructor_def init_def Let_def armed_def sys_eventfd_def
      sys_epoll_create1_def sys_close_def add_result split: if_splits option.splits)

lemma constructor_exact:
  "dom (notify (constructor p env k)) =
     armed (constructor p env k) - {evtfd (constructor p env k)}"
  using constructor_armed [of p env k] by auto

subsection \<open>The loop body, case by case\<close>

lemma handle_event_short:
  "events_EPOLLIN ev \<Longrightarrow> rd_ret rd \<noteq> 8 \<Longrightarrow>
   handle_event s (ev, rd) =
     (False, emit [Sys (Read (data_fd ev)),
                   Log LError ''Read TOR event returns wrong size: {}''] s)"
  by (simp add: handle_event_def emit_def Let_def)

lemma handle_event_stop:
  "events_EPOLLIN ev \<Longrightarrow> rd_ret rd = 8 \<Longrightarrow> data_fd ev = evtfd s \<Longrightarrow> 0 < elapsed rd \<Longrightarrow>
   handle_event s (ev, rd) =
     (True, emit [Sys (Read (data_fd ev)),
                  Log LInfo ''Read TOR event returns stop command''] s)"
  by (simp add: handle_event_def emit_def Let_def)

lemma handle_event_dispatch:
  "events_EPOLLIN ev \<Longrightarrow> rd_ret rd = 8 \<Longrightarrow> \<not> (data_fd ev = evtfd s \<and> 0 < elapsed rd) \<Longrightarrow>
   handle_event s (ev, rd) =
     (False, emit ([Sys (Read (data_fd ev)), Log LTrace ''TOR with TID {} has fired'',
                    Lock, MapFind (data_fd ev), Unlock] @
                   (case notify s (data_fd ev) of Some dot \<Rightarrow> [Trigger dot] | None \<Rightarrow> [])) s)"
  by (auto simp add: handle_event_def emit_def Let_def split: option.splits)






subsection \<open>A reactor whose construction failed\<close>

lemma failed_construction_inert:
  assumes "r_eventfd env < 0 \<or> r_epoll_create1 env < 0 \<or> \<not> grant_stop env"
  shows "\<not> thrd (constructor Linux env k) \<and> \<not> live (constructor Linux env k)"
  using assms
  by (auto simp: constructor_def init_def Let_def live_def sys_eventfd_def sys_epoll_create1_def
      sys_close_def add_result split: if_splits)

lemma not_live_step: "\<not> live s \<Longrightarrow> \<not> live (do_call Linux s c)"
  by (cases c)
    (auto simp: live_def registerTimer_Linux unregisterTimer_Linux Let_def add_result del_result)

lemma not_live_calls: "\<not> live s \<Longrightarrow> \<not> live (do_calls Linux s cs)"
  by (induction cs arbitrary: s) (simp_all add: not_live_step)

text \<open>
  After a failed construction every later call to register or unregister reports
  failure, and the destructor ends the program.
\<close>

lemma inert_stays_inert:
  assumes "r_eventfd env < 0 \<or> r_epoll_create1 env < 0 \<or> \<not> grant_stop env"
    and "s = do_calls Linux (constructor Linux env k) cs"
  shows "\<not> snd (registerTimer Linux grant s dot)"
    and "\<not> snd (unregisterTimer Linux grant s dot)"
    and "destructor Linux s = Inl Terminate"
  using failed_construction_inert [OF assms(1), of k]
    not_live_calls [of "constructor Linux env k" cs]
  by (simp_all add: assms(2) register_ok_iff unregister_ok_iff destructor_def Let_def)

subsection \<open>The concrete machine\<close>

lemma reactor0_eq:
  "reactor0 =
     \<lparr>epfd = 4, evtfd = 3, thrd = True, notify = Map.empty,
      kern = \<lparr>epolls = [4 \<mapsto> {3}], eventfds = {3}\<rparr>,
      effects = [Sys Eventfd, Sys EpollCreate1, Sys (EpollCtlAdd 4 3), ThreadSpawn,
                 Log LInfo ''Created {}'', SetName ''TOR-THRD-0'', SetSchedFifo 31]\<rparr>"
  by (simp add: reactor0_def constructor_def init_def env_ok_def kernel0_def sys_eventfd_def
      sys_epoll_create1_def epoll_ctl_add_def emit_def RT_PRIO_def Let_def)

lemma reactor1_eq:
  "reactor1 =
     \<lparr>epfd = 4, evtfd = 3, thrd = True, notify = [7 \<mapsto> timer7],
      kern = \<lparr>epolls = [4 \<mapsto> {7, 3}], eventfds = {3}\<rparr>,
      effects = [Sys Eventfd, Sys EpollCreate1, Sys (EpollCtlAdd 4 3), ThreadSpawn,
                 Log LInfo ''Created {}'', SetName ''TOR-THRD-0'', SetSchedFifo 31,
                 Lock, MapInsert 7, Unlock, Sys (EpollCtlAdd 4 7)]\<rparr>"
  by (simp add: reactor1_def reactor0_eq registerTimer_Linux timer7_def epoll_ctl_add_def
      map_insert_def Let_def)

section \<open>The claims\<close>

subsection \<open>C1: the map and the interest list\<close>

text \<open>
  C1 as stated: after every sequence of register and unregister calls on containers
  with pairwise distinct handles, the keys of the registration map are exactly the
  handles armed at the epoll instance. This fails in three ways. After one successful
  registration of timer 7 the stop descriptor 3 is armed too, and is no key. After
  registering the same container twice, the second \<^verbatim>\<open>EPOLL_CTL_ADD\<close> fails with
  EEXIST and the rollback erases the entry of the first registration, with 7 still
  armed. After a registration and an unregistration whose \<^verbatim>\<open>EPOLL_CTL_DEL\<close> the
  kernel refuses, the entry is erased with 7 still armed.
\<close>

theorem keys_equal_armed_counterexample:
  "dom (notify (do_calls Linux reactor0 [Register timer7 True])) = {7}
   \<and> armed (do_calls Linux reactor0 [Register timer7 True]) = {3, 7}
   \<and> dom (notify (do_calls Linux reactor0 [Register timer7 True, Register timer7 True])) = {}
   \<and> armed (do_calls Linux reactor0 [Register timer7 True, Register timer7 True]) = {3, 7}
   \<and> dom (notify (do_calls Linux reactor0 [Register timer7 True, Unregister timer7 False])) = {}
   \<and> armed (do_calls Linux reactor0 [Register timer7 True, Unregister timer7 False]) = {3, 7}"
  by (auto simp: reactor0_eq registerTimer_Linux unregisterTimer_Linux timer7_def Let_def
      epoll_ctl_add_def epoll_ctl_del_def armed_def)

text \<open>
  C1, amended: on either platform, after construction (failed or not) and after each
  completed call of any sequence of register and unregister calls, every key of the
  map is a handle armed at the epoll instance, and a register call that reports failure
  leaves no entry for its handle. If moreover no call names the stop handle, no call
  registers a handle that is armed at that moment, and the kernel refuses no disarming
  of an armed handle, then the keys are exactly the armed handles other than the stop
  handle.
\<close>

theorem keys_are_armed_timer_handles:
  "let s = do_calls p (constructor p env k) (take n cs) in
     dom (notify s) \<subseteq> armed s
     \<and> (\<forall>dot grant. \<not> snd (registerTimer p grant s dot) \<longrightarrow>
           get dot t_fd \<notin> dom (notify (fst (registerTimer p grant s dot))))
     \<and> (disciplined p (constructor p env k) cs \<longrightarrow> dom (notify s) = armed s - {evtfd s})"
proof -
  define s where "s = do_calls p (constructor p env k) (take n cs)"
  have "dom (notify s) \<subseteq> armed s"
    unfolding s_def by (rule keys_armed_calls) simp
  moreover have "get dot t_fd \<notin> dom (notify (fst (registerTimer p grant s dot)))"
    if "\<not> snd (registerTimer p grant s dot)" for dot grant
  proof (cases p)
    case Other
    with that show ?thesis by (simp add: registerTimer_def)
  next
    case Linux
    with that show ?thesis by (simp add: register_notify get_def)
  qed
  moreover have "dom (notify s) = armed s - {evtfd s}"
    if "disciplined p (constructor p env k) cs"
    unfolding s_def using that
    by (intro keys_exact_calls constructor_exact constructor_sane disciplined_take)
  ultimately show ?thesis
    by (simp add: s_def Let_def)
qed

text \<open>The amended C1 on a sequence that registers timer 7, fails to register timer 9,
  unregisters timer 7 and registers it again, read after its second call.\<close>

theorem keys_are_armed_timer_handles_witness:
  "disciplined Linux (constructor Linux env_ok kernel0)
     [Register timer7 True, Register timer9 False, Unregister timer7 True, Register timer7 True]
   \<and> dom (notify (do_calls Linux (constructor Linux env_ok kernel0)
        [Register timer7 True, Register timer9 False])) = {7}
   \<and> armed (do_calls Linux (constructor Linux env_ok kernel0)
        [Register timer7 True, Register timer9 False]) = {3, 7}
   \<and> \<not> snd (registerTimer Linux False (do_calls Linux (constructor Linux env_ok kernel0)
        [Register timer7 True, Register timer9 False]) timer9)"
  using keys_are_armed_timer_handles [where p = Linux and env = env_ok and k = kernel0 and n = 2
      and cs = "[Register timer7 True, Register timer9 False, Unregister timer7 True,
                 Register timer7 True]"]
  apply (simp add: Let_def numeral_2_eq_2)
  apply (auto simp: reactor0_eq [unfolded reactor0_def] registerTimer_Linux unregisterTimer_Linux
      timer7_def timer9_def Let_def epoll_ctl_add_def epoll_ctl_del_def armed_def get_def)
  done

subsection \<open>C2: register\<close>

text \<open>
  C2: on Linux, register inserts the pair of handle and container into the map under
  the lock and then asks the kernel to arm the handle. When arming fails it erases the
  entry under the lock, logs, and returns failure, and the map has no entry for the
  handle. When arming succeeds it returns success and the entry stays.
\<close>

theorem register_insert_arm_rollback:
  "let h = get dot t_fd;
       r = snd (epoll_ctl_add grant (epfd s) h (kern s));
       (s', ok) = registerTimer Linux grant s dot
   in effects s' =
        effects s @ [Lock, MapInsert h, Unlock, Sys (EpollCtlAdd (epfd s) h)] @
          (if r < 0
           then [Lock, MapErase h, Unlock,
                 Log LError ''Epoll control error at TimerObjectReactor.registerTimer: {}'']
           else [])
      \<and> (r < 0 \<longrightarrow> \<not> ok \<and> h \<notin> dom (notify s') \<and> notify s' = map_erase h (notify s))
      \<and> (0 \<le> r \<longrightarrow> ok \<and> notify s' = map_insert h dot (notify s) \<and> h \<in> dom (notify s'))"
  by (auto simp: registerTimer_Linux get_def Let_def map_erase_def map_insert_def
      split: option.splits)

text \<open>C2 on the fresh reactor: arming timer 7 refused, and arming timer 7 granted.\<close>

theorem register_insert_arm_rollback_witness:
  "snd (epoll_ctl_add False (epfd reactor0) 7 (kern reactor0)) < 0
   \<and> \<not> snd (registerTimer Linux False reactor0 timer7)
   \<and> 7 \<notin> dom (notify (fst (registerTimer Linux False reactor0 timer7)))
   \<and> 0 \<le> snd (epoll_ctl_add True (epfd reactor0) 7 (kern reactor0))
   \<and> snd (registerTimer Linux True reactor0 timer7)
   \<and> 7 \<in> dom (notify (fst (registerTimer Linux True reactor0 timer7)))"
  using register_insert_arm_rollback [where dot = timer7 and grant = False and s = reactor0]
    register_insert_arm_rollback [where dot = timer7 and grant = True and s = reactor0]
  by (simp add: Let_def split_beta get_def timer7_def reactor0_eq epoll_ctl_add_def)

subsection \<open>C3: unregister\<close>

text \<open>
  C3: on Linux, unregister asks the kernel to disarm the handle and then erases the
  handle's entry under the lock whatever the answer was, so the handle is no key of the
  map afterwards. The result is true exactly when the disarming succeeded.
\<close>

theorem unregister_always_erases:
  "let h = get dot t_fd;
       r = snd (epoll_ctl_del grant (epfd s) h (kern s));
       (s', ret) = unregisterTimer Linux grant s dot
   in h \<notin> dom (notify s')
      \<and> notify s' = map_erase h (notify s)
      \<and> ret = (0 \<le> r)
      \<and> effects s' =
          effects s @ Sys (EpollCtlDel (epfd s) h) #
            (if r < 0
             then [Log LError ''Epoll control error at TimerObjectReactor.unregisterTimer: {}'']
             else []) @ [Lock, MapErase h, Unlock]"
  by (auto simp: unregisterTimer_Linux get_def Let_def map_erase_def)

text \<open>C3 on the reactor that holds timer 7: disarming refused, and disarming granted.\<close>

theorem unregister_always_erases_witness:
  "7 \<in> dom (notify reactor1)
   \<and> snd (epoll_ctl_del False (epfd reactor1) 7 (kern reactor1)) < 0
   \<and> \<not> snd (unregisterTimer Linux False reactor1 timer7)
   \<and> 7 \<notin> dom (notify (fst (unregisterTimer Linux False reactor1 timer7)))
   \<and> snd (unregisterTimer Linux True reactor1 timer7)
   \<and> 7 \<notin> dom (notify (fst (unregisterTimer Linux True reactor1 timer7)))"
  using unregister_always_erases [where dot = timer7 and grant = False and s = reactor1]
    unregister_always_erases [where dot = timer7 and grant = True and s = reactor1]
  by (simp add: Let_def split_beta get_def timer7_def reactor1_eq epoll_ctl_del_def)

subsection \<open>C4: dispatch\<close>



subsection \<open>C5: failed construction\<close>

text \<open>
  C5 says that a reactor whose construction failed answers every register and
  unregister with failure and can be destructed safely. The first half holds. The
  destructor, however, calls \<^verbatim>\<open>join\<close> on the thread object that was never started: for
  each of the three steps that can fail (no eventfd, no epoll instance, stop handle not
  armed) destruction ends in \<^verbatim>\<open>std::terminate\<close>.
\<close>

theorem failed_construction_destructor_terminates:
  "snd (registerTimer Linux True (constructor Linux (env_ok\<lparr>r_eventfd := - 1\<rparr>) kernel0) timer7)
     = False
   \<and> snd (unregisterTimer Linux True (constructor Linux (env_ok\<lparr>r_eventfd := - 1\<rparr>) kernel0) timer7)
     = False
   \<and> destructor Linux (constructor Linux (env_ok\<lparr>r_eventfd := - 1\<rparr>) kernel0) = Inl Terminate
   \<and> destructor Linux (constructor Linux (env_ok\<lparr>r_epoll_create1 := - 1\<rparr>) kernel0) = Inl Terminate
   \<and> destructor Linux (constructor Linux (env_ok\<lparr>grant_stop := False\<rparr>) kernel0) = Inl Terminate"
  by (simp add: constructor_def init_def env_ok_def kernel0_def sys_eventfd_def
      sys_epoll_create1_def sys_close_def epoll_ctl_add_def destructor_def sys_write_def
      register_ok_iff unregister_ok_iff live_def Let_def)

subsection \<open>C6: platforms other than Linux\<close>

text \<open>
  C6 as stated: without the kernel primitives every operation is a no-op that returns
  failure. The two operations that return a value return success.
\<close>

theorem fallback_returns_failure_counterexample:
  "snd (registerTimer Other True (constructor Other env_ok kernel0) timer7)
   \<and> snd (unregisterTimer Other True (constructor Other env_ok kernel0) timer7)"
  by (simp add: registerTimer_def unregisterTimer_def)

text \<open>
  C6, amended: on a platform other than Linux, construction only initialises the
  members, register and unregister change nothing and return success, the service loop
  returns at once, and destruction writes its log line and does nothing else. No
  operation touches the kernel.
\<close>

theorem fallback_is_noop_returning_success:
  "constructor Other env k = init k
   \<and> registerTimer Other grant s dot = (s, True)
   \<and> unregisterTimer Other grant s dot = (s, True)
   \<and> run Other s ws = (Returned, s)
   \<and> destructor Other s = Inr (emit [Log LInfo ''Delete TOR''] s)"
  by (simp add: constructor_def registerTimer_def unregisterTimer_def run_def destructor_def)

text \<open>The amended C6 on the concrete machine.\<close>

theorem fallback_is_noop_returning_success_witness:
  "registerTimer Other True (init kernel0) timer7 = (init kernel0, True)
   \<and> unregisterTimer Other True (init kernel0) timer7 = (init kernel0, True)
   \<and> effects (constructor Other env_ok kernel0) = []"
  using fallback_is_noop_returning_success
      [where env = env_ok and k = kernel0 and grant = True and s = "init kernel0" and dot = timer7]
  by (simp add: init_def)

subsection \<open>C7: the stop signal\<close>

text \<open>
  C7 as stated: the loop checks for the stop handle with a nonzero count first and reads
  the counter only otherwise. On the stop event the loop does return, but the read of
  the stop descriptor 3 has happened before.
\<close>

theorem stop_check_first_counterexample:
  "fst (handle_event reactor1 stop_event)
   \<and> reads (new_effects reactor1 (snd (handle_event reactor1 stop_event))) = [3]"
  by (simp add: stop_event_def handle_event_stop reactor1_eq)

text \<open>
  C7, amended: for each ready handle with \<^verbatim>\<open>EPOLLIN\<close> set the loop first reads the
  handle's 8-byte counter. Only after a complete read does it check whether the handle
  is the stop handle and the value read is nonzero; if so it logs and the loop returns,
  leaving the rest of the events unprocessed. After a short read no check is made and
  nothing is triggered.
\<close>

theorem read_precedes_stop_check:
  assumes "events_EPOLLIN ev"
  shows "let (stop, s') = handle_event s (ev, rd);
             new = new_effects s s'
         in hd new = Sys (Read (data_fd ev))
            \<and> stop = (rd_ret rd = 8 \<and> data_fd ev = evtfd s \<and> 0 < elapsed rd)
            \<and> (stop \<longrightarrow>
                 new = [Sys (Read (data_fd ev)), Log LInfo ''Read TOR event returns stop command'']
                 \<and> for_events s ((ev, rd) # es) = (True, s')
                 \<and> (0 < evt_cnt w \<and> take (nat (evt_cnt w)) (evt w) = (ev, rd) # es \<longrightarrow>
                      fst (service_loop s (w # ws)) = Returned))
            \<and> (rd_ret rd \<noteq> 8 \<longrightarrow> \<not> stop \<and> hub_calls new = [])"
proof (cases "rd_ret rd = 8")
  case False
  with assms show ?thesis
    by (simp add: handle_event_short)
next
  case full: True
  show ?thesis
  proof (cases "data_fd ev = evtfd s \<and> 0 < elapsed rd")
    case True
    with assms full show ?thesis
      by (simp add: handle_event_stop Let_def)
  next
    case False
    with assms full show ?thesis
      by (simp add: handle_event_dispatch)
  qed
qed

text \<open>The amended C7 on the stop event, followed by an expiration that is never
  handled, and on a short read.\<close>

theorem read_precedes_stop_check_witness:
  "fst (handle_event reactor1 stop_event)
   \<and> new_effects reactor1 (snd (handle_event reactor1 stop_event)) =
       [Sys (Read 3), Log LInfo ''Read TOR event returns stop command'']
   \<and> fst (service_loop reactor1 [\<lparr>evt_cnt = 2, evt = [stop_event, fire7]\<rparr>]) = Returned
   \<and> \<not> fst (handle_event reactor1 short7)"
  using read_precedes_stop_check
      [where ev = "fst stop_event" and rd = "snd stop_event" and s = reactor1 and es = "[fire7]"
         and w = "\<lparr>evt_cnt = 2, evt = [stop_event, fire7]\<rparr>" and ws = "[]"]
    read_precedes_stop_check
      [where ev = "fst short7" and rd = "snd short7" and s = reactor1]
  by (simp add: stop_event_def short7_def Let_def split_beta reactor1_eq)

subsection \<open>C8: short reads\<close>



subsection \<open>C9: the priority of the service thread\<close>

text \<open>
  C9 as stated: the service thread's real-time priority is strictly below the priority
  at which the hub dispatches. It is not: the reactor asks for 31 and the worker
  threads run at 30.
\<close>

theorem priority_below_hub_counterexample:
  "\<not> RT_PRIO < Observer_RT_PRIO"
  by (simp add: RT_PRIO_def Observer_RT_PRIO_def)

text \<open>
  C9, amended: the service thread is given the fixed real-time priority 31, one level
  above the priority 30 of the worker threads and above the default priority. When a
  construction that got its descriptors cannot apply the priority, it logs a warning
  and ends as it would have otherwise: the thread runs and the stop handle is armed.
\<close>

theorem priority_one_above_workers:
  "RT_PRIO = Observer_RT_PRIO + 1
   \<and> DEFAULT_PRIO < RT_PRIO
   \<and> (0 \<le> r_eventfd env \<and> 0 \<le> r_epoll_create1 env \<and> r_eventfd env \<noteq> r_epoll_create1 env
        \<and> grant_stop env \<and> r_setschedparam env \<noteq> 0 \<longrightarrow>
      constructor Linux env k =
        emit [Log LWarn ''Could not set realtime parameter for {}'']
          (constructor Linux (env\<lparr>r_setschedparam := 0\<rparr>) k)
      \<and> thrd (constructor Linux env k)
      \<and> armed (constructor Linux env k) = {evtfd (constructor Linux env k)}
      \<and> SetSchedFifo RT_PRIO \<in> set (effects (constructor Linux env k)))"
  by (auto simp: RT_PRIO_def Observer_RT_PRIO_def DEFAULT_PRIO_def constructor_def init_def
      Let_def sys_eventfd_def sys_epoll_create1_def add_result armed_def)

text \<open>The amended C9 on the concrete machine, with the priority refused.\<close>

theorem priority_one_above_workers_witness:
  "thrd (constructor Linux (env_ok\<lparr>r_setschedparam := 1\<rparr>) kernel0)
   \<and> last (effects (constructor Linux (env_ok\<lparr>r_setschedparam := 1\<rparr>) kernel0)) =
       Log LWarn ''Could not set realtime parameter for {}''"
  using priority_one_above_workers [where env = "env_ok\<lparr>r_setschedparam := 1\<rparr>" and k = kernel0]
  by (simp add: env_ok_def kernel0_def constructor_def init_def sys_eventfd_def
      sys_epoll_create1_def epoll_ctl_add_def Let_def)

subsection \<open>C10: registering a handle twice\<close>

text \<open>
  C10: in any state reached from construction by register and unregister calls on
  Linux, a register call for a container whose handle is a key of the map finds the
  insert a no-op, has its \<^verbatim>\<open>EPOLL_CTL_ADD\<close> refused because the handle is armed, and
  erases the entry that was there before: it returns failure, and afterwards the handle
  is no key of the map and is still armed.
\<close>

theorem reregistration_drops_entry:
  assumes "s = do_calls Linux (constructor Linux env k) cs"
    and "get dot t_fd \<in> dom (notify s)"
  shows "let h = get dot t_fd;
             (s', ok) = registerTimer Linux grant s dot
         in map_insert h dot (notify s) = notify s
            \<and> snd (epoll_ctl_add grant (epfd s) h (kern s)) < 0
            \<and> \<not> ok
            \<and> notify s' = map_erase h (notify s)
            \<and> h \<notin> dom (notify s')
            \<and> h \<in> armed s'"
proof -
  have sub: "dom (notify s) \<subseteq> armed s"
    unfolding assms(1) by (rule keys_armed_calls) simp
  with assms(2) have a: "get dot t_fd \<in> armed s" by auto
  then have fail: "\<not> snd (registerTimer Linux grant s dot)"
    by (simp add: register_ok_iff get_def)
  then have "snd (epoll_ctl_add grant (epfd s) (get dot t_fd) (kern s)) < 0"
    by (simp add: registerTimer_Linux Let_def get_def split: if_splits)
  with a fail assms(2) show ?thesis
    by (simp add: Let_def split_beta register_notify register_armed map_insert_present get_def)
qed

text \<open>C10 for a second registration of timer 7.\<close>

theorem reregistration_drops_entry_witness:
  "get timer7 t_fd \<in> dom (notify reactor1)
   \<and> \<not> snd (registerTimer Linux True reactor1 timer7)
   \<and> 7 \<notin> dom (notify (fst (registerTimer Linux True reactor1 timer7)))
   \<and> 7 \<in> armed (fst (registerTimer Linux True reactor1 timer7))"
proof -
  have r: "reactor1 = do_calls Linux (constructor Linux env_ok kernel0) [Register timer7 True]"
    by (simp add: reactor1_def reactor0_def)
  have k: "get timer7 t_fd \<in> dom (notify reactor1)"
    by (simp add: reactor1_eq get_def timer7_def)
  from reregistration_drops_entry [OF r k, of True] k show ?thesis
    by (simp add: Let_def split_beta get_def timer7_def)
qed

end
